theory Spec2Isabelle
  imports Main
begin

section \<open>Values of the program\<close>

text \<open>
  A pandas table, as far as \<^verbatim>\<open>main.py\<close> looks at it: its column labels and its rows
  of cells. No operation of the program inspects a cell, so cells are kept as text.
\<close>

record dataframe =
  columns :: "string list"
  rows :: "string list list"

text \<open>\<^verbatim>\<open>df.empty\<close>: true when one of the two axes has length zero.\<close>

definition df_empty :: "dataframe \<Rightarrow> bool" where
  "df_empty df = (columns df = [] \<or> rows df = [])"

text \<open>\<^verbatim>\<open>len(df)\<close>: the number of rows.\<close>

definition df_len :: "dataframe \<Rightarrow> nat" where
  "df_len df = length (rows df)"

text \<open>A Python \<^verbatim>\<open>dict\<close> with string keys, in insertion order.\<close>

type_synonym pydict = "(string \<times> string) list"

text \<open>\<^verbatim>\<open>pd.DataFrame([d])\<close> for one dict \<open>d\<close>: one row, one column per key.\<close>

definition DataFrame_single :: "pydict \<Rightarrow> dataframe" where
  "DataFrame_single d = \<lparr>columns = map fst d, rows = [map snd d]\<rparr>"

text \<open>
  A value of the dict returned by \<^verbatim>\<open>get_financials\<close>: a table, or anything else
  (the loop of the \<^verbatim>\<open>fundamental\<close> command tests \<^verbatim>\<open>isinstance(value, pd.DataFrame)\<close>).
\<close>

datatype pyval = Frame dataframe | NotFrame

text \<open>
  An instance of \<^verbatim>\<open>Exception\<close> raised by a collaborator, with the text \<^verbatim>\<open>str(e)\<close>.
  Signals that are not instances of \<^verbatim>\<open>Exception\<close> (\<^verbatim>\<open>KeyboardInterrupt\<close>,
  \<^verbatim>\<open>SystemExit\<close>) are outside this development.
\<close>

datatype exn = Exception (exn_str: string)

subsection \<open>Truthiness and text\<close>

text \<open>
  \<^verbatim>\<open>if x:\<close> for an optional string (\<^verbatim>\<open>None\<close> or \<^verbatim>\<open>str\<close>): false for \<^verbatim>\<open>None\<close> and
  for the empty string. For an optional integer: false for \<^verbatim>\<open>None\<close> and for \<open>0\<close>.
\<close>

definition truthy_str :: "string option \<Rightarrow> bool" where
  "truthy_str x = (case x of None \<Rightarrow> False | Some s \<Rightarrow> s \<noteq> [])"

definition truthy_int :: "int option \<Rightarrow> bool" where
  "truthy_int x = (case x of None \<Rightarrow> False | Some n \<Rightarrow> n \<noteq> 0)"

text \<open>\<^verbatim>\<open>str(n)\<close> for an integer: decimal digits, with a leading minus sign when negative.\<close>

fun digits :: "nat \<Rightarrow> string" where
  "digits n = (if n < 10 then [char_of (48 + n)]
               else digits (n div 10) @ [char_of (48 + n mod 10)])"

declare digits.simps [simp del]

definition str_int :: "int \<Rightarrow> string" where
  "str_int i = (if i < 0 then CHR ''-'' # digits (nat (- i)) else digits (nat i))"

text \<open>
  \<^verbatim>\<open>s.upper()\<close> on the ASCII letters; characters are bytes here, and every other byte
  is left as it is. \<^verbatim>\<open>s.replace('_', ' ')\<close> replaces single characters.
\<close>

definition upper_char :: "char \<Rightarrow> char" where
  "upper_char c = (let n = (of_char c :: nat) in
                   if 97 \<le> n \<and> n \<le> 122 then char_of (n - 32) else c)"

definition upper :: "string \<Rightarrow> string" where
  "upper s = map upper_char s"

definition replace_underscore :: "string \<Rightarrow> string" where
  "replace_underscore s = map (\<lambda>c. if c = CHR ''_'' then CHR '' '' else c) s"

text \<open>The line \<^verbatim>\<open>'='*60\<close> and the newline character.\<close>

definition rule60 :: string where
  "rule60 = replicate 60 CHR ''=''"

definition nl :: char where
  "nl = CHR 0x0A"

section \<open>Effects\<close>

text \<open>
  The calls that \<^verbatim>\<open>main.py\<close> and \<^verbatim>\<open>example_usage.py\<close> make into the \<^verbatim>\<open>scraper\<close>
  package, with the arguments as passed. An optional argument is \<open>None\<close> when the
  caller passes \<^verbatim>\<open>None\<close> or leaves it out. \<open>GetReleaseObservations\<close> carries
  \<^verbatim>\<open>release_id\<close>, \<^verbatim>\<open>limit\<close> and \<^verbatim>\<open>next_cursor\<close>.
\<close>

datatype call =
    NewStockScraper
  | GetRealTimeQuote string
  | GetIntradayData string
  | GetHistoricalData string "string option" "string option" string
  | NewFREDClient "string option"
  | SearchSeries string
  | GetReleaseObservations int "int option" "string option"
  | GetSeries string "string option" "string option"
  | NewFundamentalScraper
  | GetValuationRatios string
  | GetKeyMetrics string
  | GetRevenueProfitTrend string
  | GetFinancials string
  | NewNewsScraper
  | GetCompanyNews string int
  | GetSecFilings string "string option" int
  | NewAlternativeDataScraper
  | GetShortInterest string
  | GetInstitutionalHoldings string

text \<open>
  What a run does, in order. \<open>PrintFrame df i\<close> is \<^verbatim>\<open>print(df.to_string(index=i))\<close>,
  \<open>PrintRepr df\<close> is \<^verbatim>\<open>print(df)\<close>, \<open>SetOption\<close> is \<^verbatim>\<open>pd.set_option\<close>,
  \<open>PrintHelp\<close> is \<^verbatim>\<open>parser.print_help()\<close>, \<open>ToCsv df p i\<close> is
  \<^verbatim>\<open>df.to_csv(p, index=i)\<close> and \<open>PrintTraceback\<close> is \<^verbatim>\<open>traceback.print_exc()\<close>.
\<close>

datatype event =
    Print string
  | PrintFrame dataframe bool
  | PrintRepr dataframe
  | SetOption string "nat option"
  | PrintHelp
  | Call call
  | ToCsv dataframe string bool
  | PrintTraceback exn

text \<open>
  A computation with effects: the events it produced, and either the exception that
  ended it (\<open>Inl\<close>) or its value (\<open>Inr\<close>).
\<close>

type_synonym 'a io = "event list \<times> (exn + 'a)"

definition io_return :: "'a \<Rightarrow> 'a io" where
  "io_return x = ([], Inr x)"

definition io_emit :: "event list \<Rightarrow> unit io" where
  "io_emit evs = (evs, Inr ())"

definition io_bind :: "'a io \<Rightarrow> ('a \<Rightarrow> 'b io) \<Rightarrow> 'b io" where
  "io_bind m f =
     (case m of
        (t, Inl e) \<Rightarrow> (t, Inl e)
      | (t, Inr x) \<Rightarrow> (case f x of (t', r) \<Rightarrow> (t @ t', r)))"

text \<open>A call into the package that returns a value, and the construction of an object.\<close>

definition invoke :: "call \<Rightarrow> exn + 'a \<Rightarrow> 'a io" where
  "invoke c r = ([Call c], r)"

definition construct :: "call \<Rightarrow> exn option \<Rightarrow> unit io" where
  "construct c r = ([Call c], case r of None \<Rightarrow> Inr () | Some e \<Rightarrow> Inl e)"

section \<open>print_dataframe\<close>

definition print_dataframe :: "dataframe \<Rightarrow> string \<Rightarrow> event list" where
  "print_dataframe df title =
     (if title \<noteq> [] then [Print (nl # rule60), Print title, Print rule60] else []) @
     (if df_empty df then [Print ''No data available.'']
      else [SetOption ''display.max_columns'' None,
            SetOption ''display.width'' None,
            SetOption ''display.max_colwidth'' (Some 50),
            PrintFrame df False,
            Print (nl # ''Rows: '' @ str_int (int (df_len df)))])"

section \<open>The parsed command line\<close>

text \<open>
  The namespace that \<^verbatim>\<open>parser.parse_args()\<close> returns: one alternative per subparser,
  with the attributes that subparser declares, and \<open>NoCommand\<close> when no subcommand was
  given. A \<^verbatim>\<open>store_true\<close> flag is a boolean; an option without a default is \<open>None\<close>
  when it is absent; \<^verbatim>\<open>--release-id\<close> and \<^verbatim>\<open>--limit\<close> have \<^verbatim>\<open>type=int\<close>.
  The attribute \<^verbatim>\<open>args.output\<close> is \<open>output_path\<close> here.
\<close>

datatype args =
    NoCommand
  | Stock (symbol: string) (quote: bool) (period: string)
      (start_date: "string option") (end_date: "string option")
      (intraday: bool) (output_path: "string option")
  | Fred (series: "string option") (release_id: "int option")
      (start_date: "string option") (end_date: "string option")
      (search: "string option") (output_path: "string option")
  | Fundamental (symbol: string) (ratios: bool) (metrics: bool) (trend: bool)
      (output_path: "string option")
  | News (symbol: string) (limit: int) (output_path: "string option")
  | Sec (symbol: string) (filing_type: "string option") (limit: int)
      (output_path: "string option")
  | Alternative (symbol: string) (short_interest: bool) (institutional: bool)
      (output_path: "string option")

text \<open>\<^verbatim>\<open>args.command\<close>: the name of the subparser (\<^verbatim>\<open>dest='command'\<close>).\<close>

fun command :: "args \<Rightarrow> string option" where
  "command NoCommand = None"
| "command (Stock _ _ _ _ _ _ _) = Some ''stock''"
| "command (Fred _ _ _ _ _ _) = Some ''fred''"
| "command (Fundamental _ _ _ _ _) = Some ''fundamental''"
| "command (News _ _ _) = Some ''news''"
| "command (Sec _ _ _ _) = Some ''sec''"
| "command (Alternative _ _ _ _) = Some ''alternative''"

text \<open>
  The defaults of the subparsers: the namespace of a \<^verbatim>\<open>stock\<close>, \<^verbatim>\<open>news\<close> or
  \<^verbatim>\<open>sec\<close> command line from the options as given on it (\<open>None\<close> for an option that
  is absent). \<^verbatim>\<open>--period\<close> has \<^verbatim>\<open>default='1y'\<close>, \<^verbatim>\<open>--limit\<close> has \<^verbatim>\<open>default=20\<close>.
\<close>

definition stock_parser ::
  "string \<Rightarrow> bool \<Rightarrow> string option \<Rightarrow> string option \<Rightarrow> string option \<Rightarrow> bool
     \<Rightarrow> string option \<Rightarrow> args" where
  "stock_parser smb q per sd ed intra out =
     Stock smb q (case per of None \<Rightarrow> ''1y'' | Some p \<Rightarrow> p) sd ed intra out"

definition news_parser :: "string \<Rightarrow> int option \<Rightarrow> string option \<Rightarrow> args" where
  "news_parser smb lim out = News smb (case lim of None \<Rightarrow> 20 | Some n \<Rightarrow> n) out"

definition sec_parser ::
  "string \<Rightarrow> string option \<Rightarrow> int option \<Rightarrow> string option \<Rightarrow> args" where
  "sec_parser smb ft lim out = Sec smb ft (case lim of None \<Rightarrow> 20 | Some n \<Rightarrow> n) out"

section \<open>The collaborators\<close>

text \<open>
  The \<^verbatim>\<open>scraper\<close> package is imported by \<^verbatim>\<open>main.py\<close> and is not part of the sources
  at hand, so what its classes answer is a parameter of the development: each
  constructor either raises or returns, each method either raises or returns a value
  of the type \<^verbatim>\<open>main.py\<close> uses it at. \<open>FRED_SERIES\<close> is the dict of series names,
  \<open>FRED_API_KEY\<close> is \<^verbatim>\<open>os.getenv('FRED_API_KEY')\<close>, and \<open>to_csv\<close> tells whether
  writing a table to a path raises.
\<close>

record env =
  FRED_API_KEY :: "string option"
  FRED_SERIES :: "string \<Rightarrow> string option"
  StockScraper :: "exn option"
  get_real_time_quote :: "string \<Rightarrow> exn + pydict"
  get_intraday_data :: "string \<Rightarrow> exn + dataframe"
  get_historical_data ::
    "string \<Rightarrow> string option \<Rightarrow> string option \<Rightarrow> string \<Rightarrow> exn + dataframe"
  FREDClient :: "string option \<Rightarrow> exn option"
  search_series :: "string \<Rightarrow> exn + dataframe"
  get_release_observations ::
    "int \<Rightarrow> int option \<Rightarrow> string option \<Rightarrow> exn + dataframe"
  get_series :: "string \<Rightarrow> string option \<Rightarrow> string option \<Rightarrow> exn + dataframe"
  FundamentalScraper :: "exn option"
  get_valuation_ratios :: "string \<Rightarrow> exn + pydict"
  get_key_metrics :: "string \<Rightarrow> exn + pydict"
  get_revenue_profit_trend :: "string \<Rightarrow> exn + dataframe"
  get_financials :: "string \<Rightarrow> exn + (string \<times> pyval) list"
  NewsScraper :: "exn option"
  get_company_news :: "string \<Rightarrow> int \<Rightarrow> exn + dataframe"
  get_sec_filings :: "string \<Rightarrow> string option \<Rightarrow> int \<Rightarrow> exn + dataframe"
  AlternativeDataScraper :: "exn option"
  get_short_interest :: "string \<Rightarrow> exn + pydict"
  get_institutional_holdings :: "string \<Rightarrow> exn + dataframe"
  to_csv :: "dataframe \<Rightarrow> string \<Rightarrow> exn option"

text \<open>\<^verbatim>\<open>df.to_csv(path, index=False)\<close>.\<close>

definition write_csv :: "env \<Rightarrow> dataframe \<Rightarrow> string \<Rightarrow> unit io" where
  "write_csv env df path =
     ([ToCsv df path False], case to_csv env df path of None \<Rightarrow> Inr () | Some e \<Rightarrow> Inl e)"

section \<open>main\<close>

subsection \<open>The stock command\<close>

text \<open>
  The construction of the scraper and the \<^verbatim>\<open>if\<close>/\<^verbatim>\<open>elif\<close>/\<^verbatim>\<open>else\<close> that fetches and
  prints; its value is the variable \<^verbatim>\<open>data\<close>.
\<close>

definition stock_fetch :: "env \<Rightarrow> args \<Rightarrow> dataframe io" where
  "stock_fetch env a =
     io_bind (construct NewStockScraper (StockScraper env)) (\<lambda>_.
       if quote a then
         io_bind (invoke (GetRealTimeQuote (symbol a)) (get_real_time_quote env (symbol a)))
           (\<lambda>q.
         io_bind (io_emit (print_dataframe (DataFrame_single q)
                    (''Real-time Quote: '' @ symbol a))) (\<lambda>_.
         io_return (DataFrame_single q)))
       else if intraday a then
         io_bind (invoke (GetIntradayData (symbol a)) (get_intraday_data env (symbol a)))
           (\<lambda>data.
         io_bind (io_emit (print_dataframe data (''Intraday Data: '' @ symbol a))) (\<lambda>_.
         io_return data))
       else
         io_bind (invoke
                    (GetHistoricalData (symbol a) (start_date a) (end_date a) (period a))
                    (get_historical_data env (symbol a) (start_date a) (end_date a)
                       (period a))) (\<lambda>data.
         io_bind (io_emit (print_dataframe data (''Historical Data: '' @ symbol a))) (\<lambda>_.
         io_return data)))"

text \<open>
  \<^verbatim>\<open>if args.output: df.to_csv(args.output, index=False); print(...)\<close>, as the
  \<^verbatim>\<open>stock\<close>, \<^verbatim>\<open>news\<close> and \<^verbatim>\<open>sec\<close> commands have it.
\<close>

definition save_and_report :: "env \<Rightarrow> string option \<Rightarrow> dataframe \<Rightarrow> unit io" where
  "save_and_report env out df =
     (if truthy_str out then
        io_bind (write_csv env df (the out)) (\<lambda>_.
        io_emit [Print (nl # ''Data saved to '' @ the out)])
      else io_return ())"

definition stock_cmd :: "env \<Rightarrow> args \<Rightarrow> unit io" where
  "stock_cmd env a =
     io_bind (stock_fetch env a) (\<lambda>data. save_and_report env (output_path a) data)"

subsection \<open>The fred command\<close>

text \<open>
  The construction of the client and the dispatch on \<^verbatim>\<open>--search\<close>, \<^verbatim>\<open>--release-id\<close>
  and \<^verbatim>\<open>--series\<close>. Its value is \<open>Some data\<close>, or \<open>None\<close> when the last branch
  printed the hint and returned from \<^verbatim>\<open>main\<close>.
\<close>

definition fred_fetch :: "env \<Rightarrow> args \<Rightarrow> dataframe option io" where
  "fred_fetch env a =
     io_bind (construct (NewFREDClient (FRED_API_KEY env))
                (FREDClient env (FRED_API_KEY env))) (\<lambda>_.
       if truthy_str (search a) then
         io_bind (invoke (SearchSeries (the (search a)))
                    (search_series env (the (search a)))) (\<lambda>data.
         io_bind (io_emit (print_dataframe data
                    (''FRED Series Search: '' @ the (search a)))) (\<lambda>_.
         io_return (Some data)))
       else if truthy_int (release_id a) then
         io_bind (invoke (GetReleaseObservations (the (release_id a)) None None)
                    (get_release_observations env (the (release_id a)) None None))
           (\<lambda>data.
         io_bind (io_emit (print_dataframe data
                    (''FRED Release '' @ str_int (the (release_id a))))) (\<lambda>_.
         io_return (Some data)))
       else if truthy_str (series a) then
         (let series_id = (case FRED_SERIES env (upper (the (series a))) of
                             Some sid \<Rightarrow> sid
                           | None \<Rightarrow> the (series a))
          in io_bind (invoke (GetSeries series_id (start_date a) (end_date a))
                        (get_series env series_id (start_date a) (end_date a))) (\<lambda>data.
             io_bind (io_emit (print_dataframe data (''FRED Series: '' @ series_id)))
               (\<lambda>_.
             io_return (Some data))))
       else
         io_bind (io_emit [Print ''Please specify --series, --release-id, or --search''])
           (\<lambda>_.
         io_return None))"

definition fred_cmd :: "env \<Rightarrow> args \<Rightarrow> unit io" where
  "fred_cmd env a =
     io_bind (fred_fetch env a) (\<lambda>r.
       case r of
         None \<Rightarrow> io_return ()
       | Some data \<Rightarrow>
           if truthy_str (output_path a) \<and> \<not> df_empty data then
             io_bind (write_csv env data (the (output_path a))) (\<lambda>_.
             io_emit [Print (nl # ''Data saved to '' @ the (output_path a))])
           else io_return ())"

subsection \<open>The fundamental command\<close>

text \<open>\<^verbatim>\<open>if args.output: df.to_csv(args.output, index=False)\<close>, with no message.\<close>

definition save_quietly :: "env \<Rightarrow> string option \<Rightarrow> dataframe \<Rightarrow> unit io" where
  "save_quietly env out df =
     (if truthy_str out then write_csv env df (the out) else io_return ())"

text \<open>The loop over \<^verbatim>\<open>financials.items()\<close>.\<close>

fun print_statements :: "(string \<times> pyval) list \<Rightarrow> event list" where
  "print_statements [] = []"
| "print_statements ((key, Frame v) # kvs) =
     (if \<not> df_empty v
      then [Print (nl # replace_underscore (upper key) @ '':''), PrintFrame v True]
      else []) @ print_statements kvs"
| "print_statements ((key, NotFrame) # kvs) = print_statements kvs"

definition fundamental_cmd :: "env \<Rightarrow> args \<Rightarrow> unit io" where
  "fundamental_cmd env a =
     io_bind (construct NewFundamentalScraper (FundamentalScraper env)) (\<lambda>_.
       if ratios a then
         io_bind (invoke (GetValuationRatios (symbol a))
                    (get_valuation_ratios env (symbol a))) (\<lambda>r.
         io_bind (io_emit (print_dataframe (DataFrame_single r)
                    (''Valuation Ratios: '' @ symbol a))) (\<lambda>_.
         save_quietly env (output_path a) (DataFrame_single r)))
       else if metrics a then
         io_bind (invoke (GetKeyMetrics (symbol a)) (get_key_metrics env (symbol a)))
           (\<lambda>m.
         io_bind (io_emit (print_dataframe (DataFrame_single m)
                    (''Key Metrics: '' @ symbol a))) (\<lambda>_.
         save_quietly env (output_path a) (DataFrame_single m)))
       else if trend a then
         io_bind (invoke (GetRevenueProfitTrend (symbol a))
                    (get_revenue_profit_trend env (symbol a))) (\<lambda>tr.
         io_bind (io_emit (print_dataframe tr
                    (''Revenue/Profit Trend: '' @ symbol a))) (\<lambda>_.
         save_quietly env (output_path a) tr))
       else
         io_bind (invoke (GetFinancials (symbol a)) (get_financials env (symbol a)))
           (\<lambda>financials.
         io_emit ([Print (nl # rule60),
                   Print (''Financial Statements: '' @ symbol a),
                   Print rule60] @ print_statements financials)))"

subsection \<open>The news and sec commands\<close>

definition news_fetch :: "env \<Rightarrow> args \<Rightarrow> dataframe io" where
  "news_fetch env a =
     io_bind (construct NewNewsScraper (NewsScraper env)) (\<lambda>_.
     io_bind (invoke (GetCompanyNews (symbol a) (limit a))
                (get_company_news env (symbol a) (limit a))) (\<lambda>news.
     io_bind (io_emit (print_dataframe news (''Company News: '' @ symbol a))) (\<lambda>_.
     io_return news)))"

definition news_cmd :: "env \<Rightarrow> args \<Rightarrow> unit io" where
  "news_cmd env a =
     io_bind (news_fetch env a) (\<lambda>news. save_and_report env (output_path a) news)"

definition sec_fetch :: "env \<Rightarrow> args \<Rightarrow> dataframe io" where
  "sec_fetch env a =
     io_bind (construct NewNewsScraper (NewsScraper env)) (\<lambda>_.
     io_bind (invoke (GetSecFilings (symbol a) (filing_type a) (limit a))
                (get_sec_filings env (symbol a) (filing_type a) (limit a))) (\<lambda>filings.
     io_bind (io_emit (print_dataframe filings (''SEC Filings: '' @ symbol a))) (\<lambda>_.
     io_return filings)))"

definition sec_cmd :: "env \<Rightarrow> args \<Rightarrow> unit io" where
  "sec_cmd env a =
     io_bind (sec_fetch env a) (\<lambda>filings. save_and_report env (output_path a) filings)"

subsection \<open>The alternative command\<close>

definition alternative_cmd :: "env \<Rightarrow> args \<Rightarrow> unit io" where
  "alternative_cmd env a =
     io_bind (construct NewAlternativeDataScraper (AlternativeDataScraper env)) (\<lambda>_.
       if short_interest a then
         io_bind (invoke (GetShortInterest (symbol a)) (get_short_interest env (symbol a)))
           (\<lambda>data.
         io_bind (io_emit (print_dataframe (DataFrame_single data)
                    (''Short Interest: '' @ symbol a))) (\<lambda>_.
         save_quietly env (output_path a) (DataFrame_single data)))
       else if institutional a then
         io_bind (invoke (GetInstitutionalHoldings (symbol a))
                    (get_institutional_holdings env (symbol a))) (\<lambda>data.
         io_bind (io_emit (print_dataframe data
                    (''Institutional Holdings: '' @ symbol a))) (\<lambda>_.
         save_quietly env (output_path a) data))
       else
         io_emit [Print ''Please specify --short-interest or --institutional''])"

subsection \<open>The body of the try statement, and main\<close>

definition main_try :: "env \<Rightarrow> args \<Rightarrow> unit io" where
  "main_try env a =
     (if command a = Some ''stock'' then stock_cmd env a
      else if command a = Some ''fred'' then fred_cmd env a
      else if command a = Some ''fundamental'' then fundamental_cmd env a
      else if command a = Some ''news'' then news_cmd env a
      else if command a = Some ''sec'' then sec_cmd env a
      else if command a = Some ''alternative'' then alternative_cmd env a
      else io_return ())"

text \<open>
  \<^verbatim>\<open>try: body except Exception as e: handler\<close>: an exception that ends the body is
  handed to the handler, and the statement ends normally.
\<close>

definition try_except :: "unit io \<Rightarrow> (exn \<Rightarrow> event list) \<Rightarrow> unit io" where
  "try_except body handler =
     (case body of
        (t, Inl e) \<Rightarrow> (t @ handler e, Inr ())
      | (t, Inr u) \<Rightarrow> (t, Inr u))"

text \<open>The body of the \<^verbatim>\<open>except\<close> clause of \<^verbatim>\<open>main\<close>.\<close>

definition except_handler :: "exn \<Rightarrow> event list" where
  "except_handler e = [Print (''Error: '' @ exn_str e), PrintTraceback e]"

definition main :: "env \<Rightarrow> args \<Rightarrow> unit io" where
  "main env a =
     (if \<not> truthy_str (command a) then io_emit [PrintHelp]
      else try_except (main_try env a) except_handler)"

section \<open>example_fred_data\<close>





section \<open>Reading a trace\<close>

text \<open>The calls into the package, the tables written, and the lines printed, in order.\<close>

fun calls :: "event list \<Rightarrow> call list" where
  "calls [] = []"
| "calls (Call c # t) = c # calls t"
| "calls (_ # t) = calls t"

fun csv_writes :: "event list \<Rightarrow> (dataframe \<times> string \<times> bool) list" where
  "csv_writes [] = []"
| "csv_writes (ToCsv df p i # t) = (df, p, i) # csv_writes t"
| "csv_writes (_ # t) = csv_writes t"

text \<open>The calls that construct an object, as opposed to those that fetch data.\<close>

fun is_constructor :: "call \<Rightarrow> bool" where
  "is_constructor NewStockScraper = True"
| "is_constructor (NewFREDClient _) = True"
| "is_constructor NewFundamentalScraper = True"
| "is_constructor NewNewsScraper = True"
| "is_constructor NewAlternativeDataScraper = True"
| "is_constructor _ = False"

definition fetches :: "event list \<Rightarrow> call list" where
  "fetches t = filter (\<lambda>c. \<not> is_constructor c) (calls t)"

text \<open>The exception with which a call into the package ends, if it raises.\<close>

fun raised :: "env \<Rightarrow> call \<Rightarrow> exn option" where
  "raised env NewStockScraper = StockScraper env"
| "raised env (NewFREDClient k) = FREDClient env k"
| "raised env NewFundamentalScraper = FundamentalScraper env"
| "raised env NewNewsScraper = NewsScraper env"
| "raised env NewAlternativeDataScraper = AlternativeDataScraper env"
| "raised env (GetRealTimeQuote s) =
     (case get_real_time_quote env s of Inl e \<Rightarrow> Some e | Inr _ \<Rightarrow> None)"
| "raised env (GetIntradayData s) =
     (case get_intraday_data env s of Inl e \<Rightarrow> Some e | Inr _ \<Rightarrow> None)"
| "raised env (GetHistoricalData s sd ed p) =
     (case get_historical_data env s sd ed p of Inl e \<Rightarrow> Some e | Inr _ \<Rightarrow> None)"
| "raised env (SearchSeries q) =
     (case search_series env q of Inl e \<Rightarrow> Some e | Inr _ \<Rightarrow> None)"
| "raised env (GetReleaseObservations r l c) =
     (case get_release_observations env r l c of Inl e \<Rightarrow> Some e | Inr _ \<Rightarrow> None)"
| "raised env (GetSeries s sd ed) =
     (case get_series env s sd ed of Inl e \<Rightarrow> Some e | Inr _ \<Rightarrow> None)"
| "raised env (GetValuationRatios s) =
     (case get_valuation_ratios env s of Inl e \<Rightarrow> Some e | Inr _ \<Rightarrow> None)"
| "raised env (GetKeyMetrics s) =
     (case get_key_metrics env s of Inl e \<Rightarrow> Some e | Inr _ \<Rightarrow> None)"
| "raised env (GetRevenueProfitTrend s) =
     (case get_revenue_profit_trend env s of Inl e \<Rightarrow> Some e | Inr _ \<Rightarrow> None)"
| "raised env (GetFinancials s) =
     (case get_financials env s of Inl e \<Rightarrow> Some e | Inr _ \<Rightarrow> None)"
| "raised env (GetCompanyNews s n) =
     (case get_company_news env s n of Inl e \<Rightarrow> Some e | Inr _ \<Rightarrow> None)"
| "raised env (GetSecFilings s ft n) =
     (case get_sec_filings env s ft n of Inl e \<Rightarrow> Some e | Inr _ \<Rightarrow> None)"
| "raised env (GetShortInterest s) =
     (case get_short_interest env s of Inl e \<Rightarrow> Some e | Inr _ \<Rightarrow> None)"
| "raised env (GetInstitutionalHoldings s) =
     (case get_institutional_holdings env s of Inl e \<Rightarrow> Some e | Inr _ \<Rightarrow> None)"

subsection \<open>Invariants of a run\<close>

text \<open>
  \<open>guarded env ok t\<close>: every \<open>ToCsv\<close> of the trace \<open>t\<close> comes after a fetch
  that returned without raising (\<open>ok\<close> tells whether one has been seen already).
  \<open>run_ok\<close> collects what holds of the trace of every run of \<^verbatim>\<open>main\<close>, and
  \<open>tail_ok\<close> what holds of the part of a command that follows its fetch.
\<close>

fun guarded :: "env \<Rightarrow> bool \<Rightarrow> event list \<Rightarrow> bool" where
  "guarded env ok [] = True"
| "guarded env ok (Call c # t) =
     guarded env (ok \<or> (\<not> is_constructor c \<and> raised env c = None)) t"
| "guarded env ok (ToCsv df p i # t) = (ok \<and> guarded env ok t)"
| "guarded env ok (ev # t) = guarded env ok t"


definition tail_ok :: "env \<Rightarrow> 'a io \<Rightarrow> bool" where
  "tail_ok env m \<longleftrightarrow> calls (fst m) = [] \<and> guarded env True (fst m)"


section \<open>Sample inputs\<close>

text \<open>
  A table with one row, an empty table, and collaborators to run the program on: every
  constructor returns, \<^verbatim>\<open>get_company_news\<close> raises for the symbol \<^verbatim>\<open>FAIL\<close>,
  \<^verbatim>\<open>get_series\<close> answers an empty table for \<^verbatim>\<open>UNRATE\<close>, \<^verbatim>\<open>get_sec_filings\<close>
  answers an empty table, and writing a file succeeds.
\<close>

definition sample_df :: dataframe where
  "sample_df = \<lparr>columns = [''date'', ''value''], rows = [[''2020-01-01'', ''1.5'']]\<rparr>"

definition empty_df :: dataframe where
  "empty_df = \<lparr>columns = [], rows = []\<rparr>"

definition sample_env :: env where
  "sample_env = \<lparr>
     FRED_API_KEY = Some ''key'',
     FRED_SERIES = (\<lambda>k. if k = ''UNEMPLOYMENT'' then Some ''UNRATE'' else None),
     StockScraper = None,
     get_real_time_quote = (\<lambda>s. Inr [(''current_price'', ''1'')]),
     get_intraday_data = (\<lambda>s. Inr sample_df),
     get_historical_data = (\<lambda>s sd ed p. Inr sample_df),
     FREDClient = (\<lambda>k. None),
     search_series = (\<lambda>q. Inr sample_df),
     get_release_observations = (\<lambda>r l c. Inr sample_df),
     get_series = (\<lambda>s sd ed. if s = ''UNRATE'' then Inr empty_df else Inr sample_df),
     FundamentalScraper = None,
     get_valuation_ratios = (\<lambda>s. Inr [(''pe_ratio'', ''30'')]),
     get_key_metrics = (\<lambda>s. Inr [(''revenue'', ''10'')]),
     get_revenue_profit_trend = (\<lambda>s. Inr sample_df),
     get_financials = (\<lambda>s. Inr [(''income_statement'', Frame sample_df)]),
     NewsScraper = None,
     get_company_news =
       (\<lambda>s n. if s = ''FAIL'' then Inl (Exception ''timeout'') else Inr sample_df),
     get_sec_filings = (\<lambda>s ft n. Inr empty_df),
     AlternativeDataScraper = None,
     get_short_interest = (\<lambda>s. Inr [(''short_ratio'', ''2'')]),
     get_institutional_holdings = (\<lambda>s. Inr sample_df),
     to_csv = (\<lambda>df p. None)\<rparr>"

section \<open>Properties\<close>

subsection \<open>Auxiliary facts\<close>

lemma sample_df_not_empty: "\<not> df_empty sample_df"
  by (simp add: df_empty_def sample_df_def)

lemma empty_df_empty: "df_empty empty_df"
  by (simp add: df_empty_def empty_df_def)

lemma str_int_1: "str_int 1 = ''1''"
  by code_simp

lemma io_bind_pair:
  "io_bind (t, r) f =
     (case r of Inl e \<Rightarrow> (t, Inl e) | Inr x \<Rightarrow> (t @ fst (f x), snd (f x)))"
  by (simp add: io_bind_def split: prod.splits sum.splits)

lemma io_bind_assoc:
  "io_bind (io_bind m f) g = io_bind m (\<lambda>x. io_bind (f x) g)"
  by (cases m; cases "snd m")
     (auto simp: io_bind_def split: prod.splits sum.splits)

lemma io_bind_return: "io_bind (io_return x) f = f x"
  by (simp add: io_bind_def io_return_def split: prod.splits)

lemma calls_append [simp]: "calls (t @ u) = calls t @ calls u"
  by (induction t rule: calls.induct) simp_all

lemma csv_writes_append [simp]: "csv_writes (t @ u) = csv_writes t @ csv_writes u"
  by (induction t rule: csv_writes.induct) simp_all

lemma calls_print_dataframe [simp]: "calls (print_dataframe df title) = []"
  by (simp add: print_dataframe_def)

lemma csv_writes_print_dataframe [simp]: "csv_writes (print_dataframe df title) = []"
  by (simp add: print_dataframe_def)

lemma calls_print_statements [simp]: "calls (print_statements kvs) = []"
  by (induction kvs rule: print_statements.induct) simp_all

lemma csv_writes_print_statements [simp]: "csv_writes (print_statements kvs) = []"
  by (induction kvs rule: print_statements.induct) simp_all

lemma calls_except_handler [simp]: "calls (except_handler e) = []"
  by (simp add: except_handler_def)

lemma csv_writes_except_handler [simp]: "csv_writes (except_handler e) = []"
  by (simp add: except_handler_def)

lemma guarded_True_append:
  "calls t = [] \<Longrightarrow> guarded env True (t @ u) = (guarded env True t \<and> guarded env True u)"
  by (induction env True t rule: guarded.induct) auto

lemma guarded_quiet:
  "calls t = [] \<Longrightarrow> csv_writes t = [] \<Longrightarrow> guarded env ok t"
  by (induction env ok t rule: guarded.induct) simp_all


lemma tail_ok_return [simp]: "tail_ok env (io_return x)"
  by (simp add: tail_ok_def io_return_def)

lemma tail_ok_emit:
  "calls evs = [] \<Longrightarrow> csv_writes evs = [] \<Longrightarrow> tail_ok env (io_emit evs)"
  by (simp add: tail_ok_def io_emit_def guarded_quiet)

lemma tail_ok_write_csv [simp]: "tail_ok env (write_csv env df p)"
  by (simp add: tail_ok_def write_csv_def)

lemma tail_ok_bind:
  "tail_ok env m \<Longrightarrow> \<forall>x. tail_ok env (f x) \<Longrightarrow> tail_ok env (io_bind m f)"
  by (cases m; cases "snd m")
     (auto simp: tail_ok_def io_bind_pair guarded_True_append)









lemma tail_ok_save_and_report [simp]: "tail_ok env (save_and_report env out df)"
  by (simp add: save_and_report_def tail_ok_bind tail_ok_emit)

lemma tail_ok_save_quietly [simp]: "tail_ok env (save_quietly env out df)"
  by (simp add: save_quietly_def)



lemma io_bind_return_right: "io_bind m io_return = m"
  by (cases m; cases "snd m") (auto simp: io_bind_pair io_return_def)

lemma fst_io_emit: "fst (io_emit evs) = evs"
  by (simp add: io_emit_def)










text \<open>The calls that each command makes.\<close>

lemma calls_fst_bind:
  "calls (fst m) = [] \<Longrightarrow> \<forall>x. calls (fst (f x)) = [] \<Longrightarrow> calls (fst (io_bind m f)) = []"
  by (cases m; cases "snd m") (auto simp: io_bind_pair)

lemma calls_fst_return [simp]: "calls (fst (io_return x)) = []"
  by (simp add: io_return_def)

lemma calls_fst_save_and_report [simp]: "calls (fst (save_and_report env out df)) = []"
  using tail_ok_save_and_report [of env out df] by (simp add: tail_ok_def)

lemma calls_fst_save_quietly [simp]: "calls (fst (save_quietly env out df)) = []"
  using tail_ok_save_quietly [of env out df] by (simp add: tail_ok_def)

lemma calls_fst_write_csv [simp]: "calls (fst (write_csv env df p)) = []"
  by (simp add: write_csv_def)

lemma calls_fetch_cmd:
  assumes "\<forall>x. calls (fst (K x)) = []"
  shows "calls (fst (try_except
           (io_bind (construct k rk) (\<lambda>_. io_bind (invoke c rc) K)) except_handler)) =
         (case rk of None \<Rightarrow> (case rc of Inl e \<Rightarrow> [k, c] | Inr x \<Rightarrow> [k, c]) | Some e \<Rightarrow> [k])"
  using assms
  by (cases rk; cases rc)
     (auto simp: construct_def invoke_def io_bind_pair try_except_def
           split: sum.splits prod.splits)

lemma calls_no_fetch_cmd:
  assumes "calls (fst K) = []"
  shows "calls (fst (try_except (io_bind (construct k rk) (\<lambda>_. K)) except_handler)) = [k]"
  using assms
  by (cases rk)
     (auto simp: construct_def io_bind_pair try_except_def split: sum.splits prod.splits)

lemmas calls_simps = main_def main_try_def io_bind_assoc io_bind_return
  calls_fetch_cmd calls_no_fetch_cmd calls_fst_bind
  fst_io_emit io_bind_return_right truthy_str_def [of "Some _"]

lemma calls_stock:
  "calls (fst (main env (Stock s q p sd ed i out))) =
     NewStockScraper #
     (if StockScraper env = None
      then [if q then GetRealTimeQuote s
            else if i then GetIntradayData s
            else GetHistoricalData s sd ed p]
      else [])"
  by (simp add: calls_simps stock_cmd_def stock_fetch_def split: option.split sum.split)







subsection \<open>Pretty printing\<close>

text \<open>
  C3. For every table and title, \<open>print_dataframe\<close> prints the banner with the title
  exactly when the title is not empty. After that, for an empty table it prints
  \<^verbatim>\<open>No data available.\<close> and nothing else; for any other table it sets display options,
  prints the table without its index and ends with \<^verbatim>\<open>Rows: N\<close>, where \<open>N\<close> is the
  number of rows of the table.
\<close>

theorem print_dataframe_spec:
  "\<exists>banner body. print_dataframe df title = banner @ body
     \<and> (title \<noteq> [] \<longrightarrow> banner = [Print (nl # rule60), Print title, Print rule60])
     \<and> (title = [] \<longrightarrow> banner = [])
     \<and> (df_empty df \<longrightarrow> body = [Print ''No data available.''])
     \<and> (\<not> df_empty df \<longrightarrow>
           (\<exists>opts. body = opts @ [PrintFrame df False,
                                   Print (nl # ''Rows: '' @ str_int (int (length (rows df))))]
                 \<and> (\<forall>ev \<in> set opts. \<exists>k v. ev = SetOption k v)))"
  by (simp add: print_dataframe_def df_len_def)

theorem print_dataframe_spec_witness:
  "''Quote'' \<noteq> [] \<and> \<not> df_empty sample_df
   \<and> (\<exists>opts. print_dataframe sample_df ''Quote'' =
         [Print (nl # rule60), Print ''Quote'', Print rule60] @ opts @
         [PrintFrame sample_df False, Print (nl # ''Rows: 1'')])
   \<and> df_empty empty_df
   \<and> print_dataframe empty_df [] = [Print ''No data available.'']"
proof -
  have len: "length (rows sample_df) = 1"
    by (simp add: sample_df_def)
  from print_dataframe_spec [of sample_df "''Quote''"] sample_df_not_empty len str_int_1
  have a: "\<exists>opts. print_dataframe sample_df ''Quote'' =
         [Print (nl # rule60), Print ''Quote'', Print rule60] @ opts @
         [PrintFrame sample_df False, Print (nl # ''Rows: 1'')]"
    by auto
  from print_dataframe_spec [of empty_df "[]"] empty_df_empty
  have b: "print_dataframe empty_df [] = [Print ''No data available.'']"
    by auto
  from a b sample_df_not_empty empty_df_empty show ?thesis by simp
qed

subsection \<open>Failures and retries\<close>








lemma csv_writes_no_fetch_cmd:
  assumes "csv_writes (fst K) = []"
  shows "csv_writes (fst (try_except (io_bind (construct k rk) (\<lambda>_. K)) except_handler))
         = []"
  using assms
  by (cases rk)
     (auto simp: construct_def io_bind_pair try_except_def split: sum.splits prod.splits)

subsection \<open>Dispatch\<close>

text \<open>
  C9. The three modes of the \<^verbatim>\<open>stock\<close> command are prioritised. Once the scraper is
  constructed, the only fetch of the run is the real-time quote when \<^verbatim>\<open>--quote\<close> is
  given, whatever \<^verbatim>\<open>--intraday\<close> is; the intraday data when \<^verbatim>\<open>--quote\<close> is absent
  and \<^verbatim>\<open>--intraday\<close> is given; and the historical data, with the start and end dates
  and the \<^verbatim>\<open>--period\<close> value (\<^verbatim>\<open>1y\<close> when the option is absent), exactly when
  neither flag is given.
\<close>

theorem stock_mode_priority:
  "fetches (fst (main env (stock_parser s q per sd ed i out))) =
     (if StockScraper env \<noteq> None then []
      else if q then [GetRealTimeQuote s]
      else if i then [GetIntradayData s]
      else [GetHistoricalData s sd ed (case per of None \<Rightarrow> ''1y'' | Some p \<Rightarrow> p)])"
  by (simp add: stock_parser_def fetches_def calls_stock)

theorem stock_mode_priority_witness:
  "fetches (fst (main sample_env (stock_parser ''AAPL'' True None None None True None)))
     = [GetRealTimeQuote ''AAPL'']
   \<and> fetches (fst (main sample_env (stock_parser ''AAPL'' False None None None True None)))
     = [GetIntradayData ''AAPL'']
   \<and> fetches (fst (main sample_env
        (stock_parser ''AAPL'' False None (Some ''2024-01-01'') None False None)))
     = [GetHistoricalData ''AAPL'' (Some ''2024-01-01'') None ''1y'']"
proof -
  have "StockScraper sample_env = None"
    by (simp add: sample_env_def)
  then show ?thesis
    using stock_mode_priority [of sample_env "''AAPL''" True None None None True None]
      stock_mode_priority [of sample_env "''AAPL''" False None None None True None]
      stock_mode_priority [of sample_env "''AAPL''" False None "Some ''2024-01-01''" None
        False None]
    by simp
qed


lemma upper_unemployment: "upper ''unemployment'' = ''UNEMPLOYMENT''"
  by code_simp








subsection \<open>Writing the CSV file\<close>

lemma printed_last:
  "csv_writes [x, y] = [] \<Longrightarrow>
     \<exists>pre. (\<exists>title. x # y # print_dataframe df T = pre @ print_dataframe df title)
            \<and> csv_writes pre = []"
  by (rule exI [of _ "[x, y]"]) auto

lemmas block_defs = io_bind_pair construct_def invoke_def io_emit_def io_return_def

lemma stock_fetch_shape:
  assumes "stock_fetch env a = (t, Inr df)"
  shows "\<exists>pre title. t = pre @ print_dataframe df title \<and> csv_writes pre = []"
  using assms
  by (cases "StockScraper env"; cases "get_real_time_quote env (symbol a)";
      cases "get_intraday_data env (symbol a)";
      cases "get_historical_data env (symbol a) (start_date a) (end_date a) (period a)")
     (auto simp: stock_fetch_def block_defs printed_last split: if_splits)

lemma news_fetch_shape:
  assumes "news_fetch env a = (t, Inr df)"
  shows "\<exists>pre title. t = pre @ print_dataframe df title \<and> csv_writes pre = []"
  using assms
  by (cases "NewsScraper env"; cases "get_company_news env (symbol a) (limit a)")
     (auto simp: news_fetch_def block_defs printed_last)

lemma sec_fetch_shape:
  assumes "sec_fetch env a = (t, Inr df)"
  shows "\<exists>pre title. t = pre @ print_dataframe df title \<and> csv_writes pre = []"
  using assms
  by (cases "NewsScraper env";
      cases "get_sec_filings env (symbol a) (filing_type a) (limit a)")
     (auto simp: sec_fetch_def block_defs printed_last)

lemma save_and_report_trace:
  "fst (try_except (io_bind (t, Inr df) (save_and_report env out)) except_handler) =
     t @ (if truthy_str out
          then ToCsv df (the out) False #
               (case to_csv env df (the out) of
                  None \<Rightarrow> [Print (nl # ''Data saved to '' @ the out)]
                | Some e \<Rightarrow> except_handler e)
          else [])"
  by (simp add: save_and_report_def write_csv_def block_defs try_except_def
        split: option.split)

text \<open>
  C1, as amended. For the \<^verbatim>\<open>stock\<close>, \<^verbatim>\<open>news\<close> and \<^verbatim>\<open>sec\<close> commands, when the
  fetch returned a table \<open>df\<close> and \<open>t\<close> is the trace up to and including its
  printing: the run continues with \<^verbatim>\<open>df.to_csv(path, index=False)\<close>, and that is its
  only write, when \<^verbatim>\<open>--output\<close> has a non-empty value \<open>path\<close>; the run ends at
  \<open>t\<close>, with no write, when \<^verbatim>\<open>--output\<close> is absent or empty. The table may be empty.
\<close>

theorem output_written_iff_nonempty_path:
  assumes "(command a = Some ''stock'' \<and> stock_fetch env a = (t, Inr df))
         \<or> (command a = Some ''news'' \<and> news_fetch env a = (t, Inr df))
         \<or> (command a = Some ''sec'' \<and> sec_fetch env a = (t, Inr df))"
  shows "(\<exists>pre title. t = pre @ print_dataframe df title \<and> csv_writes pre = [])
       \<and> (truthy_str (output_path a) \<longrightarrow>
            (\<exists>rest. fst (main env a) = t @ ToCsv df (the (output_path a)) False # rest
                    \<and> csv_writes rest = []))
       \<and> (\<not> truthy_str (output_path a) \<longrightarrow> fst (main env a) = t)"
proof -
  have shape: "\<exists>pre title. t = pre @ print_dataframe df title \<and> csv_writes pre = []"
    using assms stock_fetch_shape news_fetch_shape sec_fetch_shape by blast
  have run: "fst (main env a) =
      fst (try_except (io_bind (t, Inr df) (save_and_report env (output_path a)))
             except_handler)"
    using assms
    by (cases a)
       (auto simp: main_def main_try_def stock_cmd_def news_cmd_def sec_cmd_def
          truthy_str_def)
  have "csv_writes (case to_csv env df p of
                      None \<Rightarrow> [Print (nl # ''Data saved to '' @ p)]
                    | Some e \<Rightarrow> except_handler e) = []" for p
    by (simp split: option.split)
  with shape run show ?thesis
    by (simp add: save_and_report_trace)
qed


lemma sec_fetch_sample:
  "sec_fetch sample_env (Sec ''AAPL'' None 20 (Some ''x.csv'')) =
     ([Call NewNewsScraper, Call (GetSecFilings ''AAPL'' None 20)]
      @ print_dataframe empty_df ''SEC Filings: AAPL'', Inr empty_df)"
  by (simp add: sec_fetch_def block_defs sample_env_def)

lemma news_fetch_sample:
  "news_fetch sample_env (News ''AAPL'' 20 None) =
     ([Call NewNewsScraper, Call (GetCompanyNews ''AAPL'' 20)]
      @ print_dataframe sample_df ''Company News: AAPL'', Inr sample_df)"
  by (simp add: news_fetch_def block_defs sample_env_def)

theorem output_written_iff_nonempty_path_witness:
  "command (Sec ''AAPL'' None 20 (Some ''x.csv'')) = Some ''sec''
   \<and> sec_fetch sample_env (Sec ''AAPL'' None 20 (Some ''x.csv'')) =
       ([Call NewNewsScraper, Call (GetSecFilings ''AAPL'' None 20)]
        @ print_dataframe empty_df ''SEC Filings: AAPL'', Inr empty_df)
   \<and> df_empty empty_df
   \<and> truthy_str (output_path (Sec ''AAPL'' None 20 (Some ''x.csv'')))
   \<and> (\<exists>rest. fst (main sample_env (Sec ''AAPL'' None 20 (Some ''x.csv''))) =
         ([Call NewNewsScraper, Call (GetSecFilings ''AAPL'' None 20)]
          @ print_dataframe empty_df ''SEC Filings: AAPL'')
         @ ToCsv empty_df ''x.csv'' False # rest \<and> csv_writes rest = [])
   \<and> command (News ''AAPL'' 20 None) = Some ''news''
   \<and> \<not> truthy_str (output_path (News ''AAPL'' 20 None))
   \<and> fst (main sample_env (News ''AAPL'' 20 None)) =
       [Call NewNewsScraper, Call (GetCompanyNews ''AAPL'' 20)]
       @ print_dataframe sample_df ''Company News: AAPL''"
proof -
  have t: "truthy_str (output_path (Sec ''AAPL'' None 20 (Some ''x.csv'')))"
    "\<not> truthy_str (output_path (News ''AAPL'' 20 None))"
    by (simp_all add: truthy_str_def)
  have c: "command (Sec ''AAPL'' None 20 (Some ''x.csv'')) = Some ''sec''"
    "command (News ''AAPL'' 20 None) = Some ''news''"
    by simp_all
  from output_written_iff_nonempty_path [of "Sec ''AAPL'' None 20 (Some ''x.csv'')"
      sample_env _ empty_df] c(1) sec_fetch_sample t(1)
  have a: "\<exists>rest. fst (main sample_env (Sec ''AAPL'' None 20 (Some ''x.csv''))) =
         ([Call NewNewsScraper, Call (GetSecFilings ''AAPL'' None 20)]
          @ print_dataframe empty_df ''SEC Filings: AAPL'')
         @ ToCsv empty_df ''x.csv'' False # rest \<and> csv_writes rest = []"
    by simp
  from output_written_iff_nonempty_path [of "News ''AAPL'' 20 None" sample_env _ sample_df]
    c(2) news_fetch_sample t(2)
  have b: "fst (main sample_env (News ''AAPL'' 20 None)) =
       [Call NewNewsScraper, Call (GetCompanyNews ''AAPL'' 20)]
       @ print_dataframe sample_df ''Company News: AAPL''"
    by simp
  from a b c t sec_fetch_sample empty_df_empty show ?thesis by blast
qed

text \<open>
  The claim C1 as stated fails: with \<^verbatim>\<open>--output\<close> supplied as the empty string,
  nothing is written.
\<close>

theorem output_written_iff_supplied_counterexample:
  "output_path (News ''AAPL'' 20 (Some [])) = Some []
   \<and> csv_writes (fst (main sample_env (News ''AAPL'' 20 (Some [])))) = []"
  by code_simp

lemma csv_writes_fst_bind:
  "csv_writes (fst m) = [] \<Longrightarrow> \<forall>x. csv_writes (fst (f x)) = [] \<Longrightarrow>
     csv_writes (fst (io_bind m f)) = []"
  by (cases m; cases "snd m") (auto simp: io_bind_pair)

lemma csv_writes_fred_fetch: "csv_writes (fst (fred_fetch env a)) = []"
  by (simp add: fred_fetch_def Let_def csv_writes_fst_bind construct_def invoke_def
        fst_io_emit io_return_def)

lemma csv_writes_fred:
  assumes "fred_fetch env (Fred s r sd ed q out) = (t, res)"
  shows "csv_writes (fst (main env (Fred s r sd ed q out))) =
     (case res of
        Inr (Some df) \<Rightarrow>
          if truthy_str out \<and> \<not> df_empty df then [(df, the out, False)] else []
      | _ \<Rightarrow> [])"
proof -
  from assms csv_writes_fred_fetch [of env "Fred s r sd ed q out"]
  have "csv_writes t = []" by simp
  with assms show ?thesis
    by (simp add: main_def main_try_def fred_cmd_def try_except_def write_csv_def
          block_defs truthy_str_def [of "Some _"]
          split: sum.split option.split)
qed

text \<open>
  C2. For the \<^verbatim>\<open>fred\<close> command, a table is written only to the path that
  \<^verbatim>\<open>--output\<close> gives, only when it is the table that was fetched, and only when that
  table is not empty; when the fetched table is empty nothing is written, whatever
  \<^verbatim>\<open>--output\<close> is.
\<close>

theorem fred_output_only_when_nonempty:
  assumes "command a = Some ''fred''"
  shows "(\<forall>df p i. (df, p, i) \<in> set (csv_writes (fst (main env a))) \<longrightarrow>
            output_path a = Some p \<and> p \<noteq> [] \<and> \<not> df_empty df
            \<and> (\<exists>t. fred_fetch env a = (t, Inr (Some df))))
       \<and> (\<forall>t df. fred_fetch env a = (t, Inr (Some df)) \<and> df_empty df \<longrightarrow>
            csv_writes (fst (main env a)) = [])"
proof -
  from assms obtain s r sd ed q out where a: "a = Fred s r sd ed q out"
    by (cases a) auto
  obtain t res where f: "fred_fetch env a = (t, res)"
    by (cases "fred_fetch env a")
  from f a have "csv_writes (fst (main env a)) =
     (case res of
        Inr (Some df) \<Rightarrow>
          if truthy_str out \<and> \<not> df_empty df then [(df, the out, False)] else []
      | _ \<Rightarrow> [])"
    by (simp add: csv_writes_fred)
  with f a show ?thesis
    by (auto simp: truthy_str_def split: sum.splits option.splits if_splits)
qed

lemma fred_fetch_sample:
  "fred_fetch sample_env (Fred (Some ''unemployment'') None None None None (Some ''o.csv'')) =
     ([Call (NewFREDClient (Some ''key'')), Call (GetSeries ''UNRATE'' None None)]
      @ print_dataframe empty_df ''FRED Series: UNRATE'', Inr (Some empty_df))"
  by (simp add: fred_fetch_def block_defs sample_env_def truthy_str_def truthy_int_def
        upper_unemployment Let_def)

lemma fred_write_sample:
  "csv_writes (fst (main sample_env (Fred (Some ''gdp'') None None None None (Some ''o.csv''))))
     = [(sample_df, ''o.csv'', False)]"
  by code_simp

theorem fred_output_only_when_nonempty_witness:
  "command (Fred (Some ''gdp'') None None None None (Some ''o.csv'')) = Some ''fred''
   \<and> (sample_df, ''o.csv'', False)
       \<in> set (csv_writes (fst (main sample_env
            (Fred (Some ''gdp'') None None None None (Some ''o.csv'')))))
   \<and> output_path (Fred (Some ''gdp'') None None None None (Some ''o.csv'')) = Some ''o.csv''
   \<and> \<not> df_empty sample_df
   \<and> fred_fetch sample_env
        (Fred (Some ''unemployment'') None None None None (Some ''o.csv'')) =
       ([Call (NewFREDClient (Some ''key'')), Call (GetSeries ''UNRATE'' None None)]
        @ print_dataframe empty_df ''FRED Series: UNRATE'', Inr (Some empty_df))
   \<and> df_empty empty_df
   \<and> csv_writes (fst (main sample_env
        (Fred (Some ''unemployment'') None None None None (Some ''o.csv'')))) = []"
proof -
  have m: "(sample_df, ''o.csv'', False)
       \<in> set (csv_writes (fst (main sample_env
            (Fred (Some ''gdp'') None None None None (Some ''o.csv'')))))"
    by (simp add: fred_write_sample)
  have c: "command (Fred (Some ''gdp'') None None None None (Some ''o.csv'')) = Some ''fred''"
    "command (Fred (Some ''unemployment'') None None None None (Some ''o.csv''))
       = Some ''fred''"
    by simp_all
  from fred_output_only_when_nonempty [OF c(1), of sample_env] m
  have a: "output_path (Fred (Some ''gdp'') None None None None (Some ''o.csv''))
             = Some ''o.csv'' \<and> \<not> df_empty sample_df"
    by blast
  from fred_output_only_when_nonempty [OF c(2), of sample_env]
    fred_fetch_sample empty_df_empty
  have b: "csv_writes (fst (main sample_env
        (Fred (Some ''unemployment'') None None None None (Some ''o.csv'')))) = []"
    by blast
  from a b m fred_fetch_sample empty_df_empty show ?thesis by simp
qed




end
